theory Spec2Isabelle
  imports Complex_Main "HOL-Library.Sublist"
begin

chapter \<open>HR automation: conversational agent and resume analysis\<close>

text \<open>
  A shallow embedding of the Python sources \<^verbatim>\<open>agents/hr_conversational_agent.py\<close>,
  \<^verbatim>\<open>agents/resume_analysis_agent.py\<close> and \<^verbatim>\<open>utils/logger.py\<close>.

  A Python \<^verbatim>\<open>str\<close> is modelled as a \<^typ>\<open>string\<close> whose characters are the code
  points 0 to 255 (Latin-1); the Unicode-aware string methods and regular expression
  classes are modelled on that range, where they are given by the tables below.
\<close>

section \<open>Python strings\<close>

text \<open>\<^verbatim>\<open>str.lower\<close>: on the code points below 256, the letters A-Z and the
  letters U+00C0 to U+00DE (the multiplication sign U+00D7 apart) move up by 32.\<close>

definition py_lower_char :: "char \<Rightarrow> char" where
  "py_lower_char c =
     (let n = (of_char c :: nat)
      in if (65 \<le> n \<and> n \<le> 90) \<or> (192 \<le> n \<and> n \<le> 222 \<and> n \<noteq> 215)
         then char_of (n + 32) else c)"

definition py_lower :: "string \<Rightarrow> string" where
  "py_lower s = map py_lower_char s"

text \<open>\<^verbatim>\<open>k in s\<close> on strings: \<open>k\<close> is a contiguous part of \<open>s\<close>.\<close>

fun py_in :: "string \<Rightarrow> string \<Rightarrow> bool" where
  "py_in k [] = (k = [])"
| "py_in k (c # s) = (prefix k (c # s) \<or> py_in k s)"

text \<open>\<^verbatim>\<open>str.isspace\<close> of one character, which is also the class \<^verbatim>\<open>\s\<close> of a
  regular expression on \<^verbatim>\<open>str\<close>: the code points 9 to 13, 28 to 32, 133 and 160.\<close>

definition py_isspace :: "char \<Rightarrow> bool" where
  "py_isspace c =
     (let n = (of_char c :: nat)
      in (9 \<le> n \<and> n \<le> 13) \<or> (28 \<le> n \<and> n \<le> 32) \<or> n = 133 \<or> n = 160)"

text \<open>\<^verbatim>\<open>str.strip()\<close>\<close>

definition py_strip :: "string \<Rightarrow> string" where
  "py_strip s = rev (dropWhile py_isspace (rev (dropWhile py_isspace s)))"

text \<open>\<^verbatim>\<open>s.replace(old, new)\<close>: the occurrences of \<open>old\<close> are found from the left and
  do not overlap; an empty \<open>old\<close> matches before every character and at the end.\<close>

function py_replace :: "string \<Rightarrow> string \<Rightarrow> string \<Rightarrow> string" where
  "py_replace s old new =
     (if old = [] then new @ concat (map (\<lambda>c. c # new) s)
      else (case s of
              [] \<Rightarrow> []
            | c # s' \<Rightarrow>
                if prefix old s then new @ py_replace (drop (length old) s) old new
                else c # py_replace s' old new))"
  by pat_completeness auto
termination
  by (relation "measure (\<lambda>(s, old, new). length s)") auto

text \<open>\<^verbatim>\<open>sep.join(xs)\<close> on a list of strings.\<close>

fun py_join :: "string \<Rightarrow> string list \<Rightarrow> string" where
  "py_join sep [] = []"
| "py_join sep [x] = x"
| "py_join sep (x # y # xs) = x @ sep @ py_join sep (y # xs)"

text \<open>The decimal digits 0 to 9: the class \<^verbatim>\<open>\d\<close> on the code points below 256.\<close>

definition py_isdigit :: "char \<Rightarrow> bool" where
  "py_isdigit c = (let n = (of_char c :: nat) in 48 \<le> n \<and> n \<le> 57)"

definition digit_val :: "char \<Rightarrow> nat" where
  "digit_val c = of_char c - 48"

text \<open>The value of a run of digits, most significant first.\<close>

definition digits_val :: "string \<Rightarrow> nat" where
  "digits_val ds = foldl (\<lambda>acc c. 10 * acc + digit_val c) 0 ds"

text \<open>A digit part of a numeric literal of \<^verbatim>\<open>int()\<close> and \<^verbatim>\<open>float()\<close>: digits, with
  one underscore allowed between two digits. The result is the digits without the
  underscores, and the rest of the text; no leading digit is \<open>None\<close>.\<close>

fun digitpart_more :: "string \<Rightarrow> string \<Rightarrow> string \<times> string" where
  "digitpart_more acc (c # d # s) =
     (if py_isdigit c then digitpart_more (acc @ [c]) (d # s)
      else if c = CHR ''_'' \<and> py_isdigit d then digitpart_more (acc @ [d]) s
      else (acc, c # d # s))"
| "digitpart_more acc [c] = (if py_isdigit c then (acc @ [c], []) else (acc, [c]))"
| "digitpart_more acc [] = (acc, [])"

definition digitpart :: "string \<Rightarrow> (string \<times> string) option" where
  "digitpart s =
     (case s of
        [] \<Rightarrow> None
      | c # s' \<Rightarrow> if py_isdigit c then Some (digitpart_more [c] s') else None)"

text \<open>An optional sign: the sign read (\<open>True\<close> for a minus) and the rest.\<close>

definition sign_part :: "string \<Rightarrow> bool \<times> string" where
  "sign_part s =
     (case s of
        [] \<Rightarrow> (False, [])
      | c # s' \<Rightarrow>
          if c = CHR ''-'' then (True, s')
          else if c = CHR ''+'' then (False, s')
          else (False, s))"

text \<open>\<^verbatim>\<open>int(s)\<close> on a string, base 10: surrounding whitespace, an optional sign and
  a digit part; \<open>None\<close> stands for the \<^verbatim>\<open>ValueError\<close>. (The limit of recent Python
  versions on the number of digits, 4300 by default, is not part of the model.)\<close>

definition py_int :: "string \<Rightarrow> int option" where
  "py_int s =
     (let (neg, t) = sign_part (py_strip s)
      in case digitpart t of
           Some (ds, []) \<Rightarrow> Some (if neg then - int (digits_val ds) else int (digits_val ds))
         | _ \<Rightarrow> None)"

section \<open>Truth values and defaults\<close>

text \<open>A value that is \<^verbatim>\<open>None\<close> or a \<^verbatim>\<open>str\<close>. Its truth value: \<^verbatim>\<open>None\<close> and the
  empty string are false.\<close>

definition truthy :: "string option \<Rightarrow> bool" where
  "truthy v = (case v of None \<Rightarrow> False | Some s \<Rightarrow> s \<noteq> [])"

text \<open>\<^verbatim>\<open>a or b\<close>\<close>

definition py_or :: "string option \<Rightarrow> string option \<Rightarrow> string option" where
  "py_or a b = (if truthy a then a else b)"

section \<open>Process environment and configuration (\<^verbatim>\<open>config.py\<close>)\<close>

type_synonym environ = "string \<rightharpoonup> string"

text \<open>The module reads its constants with \<^verbatim>\<open>os.getenv\<close> when it is imported.\<close>

definition GEMINI_API_KEY :: "environ \<Rightarrow> string option" where
  "GEMINI_API_KEY env = env ''GEMINI_API_KEY''"

definition DEEPSEEK_API_KEY :: "environ \<Rightarrow> string option" where
  "DEEPSEEK_API_KEY env = env ''DEEPSEEK_API_KEY''"

definition EMAIL_SERVER :: "environ \<Rightarrow> string option" where
  "EMAIL_SERVER env = env ''EMAIL_SERVER''"

definition EMAIL_USERNAME :: "environ \<Rightarrow> string option" where
  "EMAIL_USERNAME env = env ''EMAIL_USERNAME''"

definition EMAIL_PASSWORD :: "environ \<Rightarrow> string option" where
  "EMAIL_PASSWORD env = env ''EMAIL_PASSWORD''"

definition EMAIL_PORT :: "environ \<Rightarrow> string option" where
  "EMAIL_PORT env = env ''EMAIL_PORT''"

text \<open>The environment after the import of \<^verbatim>\<open>config\<close>, which copies a non-empty
  \<^verbatim>\<open>GEMINI_API_KEY\<close> to \<^verbatim>\<open>GOOGLE_API_KEY\<close>.\<close>

definition config_environ :: "environ \<Rightarrow> environ" where
  "config_environ env =
     (if truthy (GEMINI_API_KEY env)
      then env(''GOOGLE_API_KEY'' \<mapsto> the (GEMINI_API_KEY env))
      else env)"

section \<open>Redaction of secrets (\<^verbatim>\<open>utils/logger.py\<close>)\<close>

definition sensitive_names :: "string list" where
  "sensitive_names =
     [''GEMINI_API_KEY'', ''GOOGLE_API_KEY'', ''DEEPSEEK_API_KEY'', ''OPENAI_API_KEY'',
      ''EMAIL_PASSWORD'', ''IMAP_PASSWORD'', ''ADMIN_PASSWORD'']"

text \<open>The default of \<^verbatim>\<open>sensitive_keys\<close>: the non-empty values of the seven variables,
  in the order of the source.\<close>

definition default_sensitive_keys :: "environ \<Rightarrow> string list" where
  "default_sensitive_keys env =
     concat (map (\<lambda>key. case env key of
                          None \<Rightarrow> []
                        | Some v \<Rightarrow> if v \<noteq> [] then [v] else []) sensitive_names)"

text \<open>\<^verbatim>\<open>key[:4] + "***" + key[-4:] if len(key) > 8 else "***"\<close>\<close>

definition masked :: "string \<Rightarrow> string" where
  "masked key =
     (if length key > 8 then take 4 key @ ''***'' @ drop (length key - 4) key
      else ''***'')"

text \<open>The loop of \<^verbatim>\<open>sanitize_error_message\<close> over the keys.\<close>

fun sanitize_keys :: "string \<Rightarrow> string list \<Rightarrow> string" where
  "sanitize_keys sanitized [] = sanitized"
| "sanitize_keys sanitized (key # keys) =
     (if key \<noteq> [] \<and> length key > 4
      then sanitize_keys (py_replace sanitized key (masked key)) keys
      else sanitize_keys sanitized keys)"

text \<open>\<^verbatim>\<open>sanitize_error_message(error_msg, sensitive_keys=None)\<close>, in the environment
  \<open>env\<close> of the process.\<close>

definition sanitize_error_message :: "environ \<Rightarrow> string \<Rightarrow> string list option \<Rightarrow> string" where
  "sanitize_error_message env error_msg sensitive_keys =
     sanitize_keys error_msg
       (case sensitive_keys of None \<Rightarrow> default_sensitive_keys env | Some keys \<Rightarrow> keys)"

section \<open>Intent classification\<close>

datatype intent = Query | GenerateEmail | SendEmail

definition email_keywords :: "string list" where
  "email_keywords =
     [''prepare email'', ''create email'', ''write email'', ''draft email'',
      ''generate email'', ''compose email'', ''make email'', ''email to candidate'']"

definition send_keywords :: "string list" where
  "send_keywords =
     [''send email'', ''send it'', ''send the email'', ''send now'',
      ''dispatch email'', ''email send'']"

text \<open>\<^verbatim>\<open>HRConversationalAgent._is_email_request\<close>\<close>

definition is_email_request :: "string \<Rightarrow> bool" where
  "is_email_request query =
     (let query_lower = py_lower query
      in list_ex (\<lambda>keyword. py_in keyword query_lower) email_keywords)"

text \<open>\<^verbatim>\<open>HRConversationalAgent._is_send_request\<close>\<close>

definition is_send_request :: "string \<Rightarrow> bool" where
  "is_send_request query =
     (let query_lower = py_lower query
      in list_ex (\<lambda>keyword. py_in keyword query_lower) send_keywords)"

text \<open>The routing at the head of \<^verbatim>\<open>HRConversationalAgent.chat\<close>: the two tests in
  the order of the source, and the plain query after them.\<close>

definition chat_intent :: "string \<Rightarrow> intent" where
  "chat_intent query =
     (if is_email_request query then GenerateEmail
      else if is_send_request query then SendEmail
      else Query)"

section \<open>Exceptions, log records and the outside world\<close>

datatype py_exception =
    ValueError string
  | TypeError string
  | OverflowError string
  | IndexError string
  | Exception string

text \<open>\<^verbatim>\<open>str(e)\<close> of an exception: its message.\<close>

fun str_exception :: "py_exception \<Rightarrow> string" where
  "str_exception (ValueError m) = m"
| "str_exception (TypeError m) = m"
| "str_exception (OverflowError m) = m"
| "str_exception (IndexError m) = m"
| "str_exception (Exception m) = m"

datatype log_level = DEBUG | INFO | WARNING | ERROR

text \<open>A model handle. \<open>invoke\<close> is \<^verbatim>\<open>model.invoke(prompt)\<close> followed by the reading of
  the response's content; \<open>chain_invoke\<close> is \<^verbatim>\<open>(ChatPromptTemplate.from_messages(ms) |
  model).invoke({"input": q})\<close>, again with the content read. Each gives the text, or the
  exception the call raises. A handle answers the same request the same way: the claims
  below never compare two calls of one request.\<close>

datatype provider = Gemini | DeepSeek

record llm =
  provider :: provider
  invoke :: "string \<Rightarrow> py_exception + string"
  chain_invoke :: "(string \<times> string) list \<Rightarrow> string \<Rightarrow> py_exception + string"

text \<open>The two modules that resolve a provider; they differ in the temperature they
  pass to the constructors and in the texts they log.\<close>

datatype module = ResumeAnalysis | HRAgent

text \<open>How far the block \<^verbatim>\<open>with smtplib.SMTP(...) as server\<close> got: the step that
  raised, or the message sent and the connection closed.\<close>

datatype smtp_outcome =
    ConnectRaised py_exception
  | StarttlsRaised py_exception
  | LoginRaised py_exception
  | SendRaised py_exception
  | QuitRaised py_exception
  | Sent

record email_message =
  Subject :: string
  From :: string
  To :: string
  content :: string

text \<open>What the code observes of the world outside: the log records it writes, the
  calls to a model and the SMTP sessions it opens.\<close>

datatype event =
    Log log_level string
  | Invoke string
  | ChainInvoke "(string \<times> string) list" string
  | SmtpSession string int string string email_message

text \<open>The libraries and services behind the code, which are not among the sources:
  \<^item> \<open>environ\<close>: the process environment when \<^verbatim>\<open>config\<close> is imported;
  \<^item> \<open>GEMINI_AVAILABLE\<close>: whether \<^verbatim>\<open>langchain_google_genai\<close> could be imported;
  \<^item> \<open>ChatGoogleGenerativeAI\<close>, \<open>ChatOpenAI\<close>: the constructors of the two providers
    (the second takes the API key), which give a handle or raise;
  \<^item> \<open>format_email\<close>: \<^verbatim>\<open>utils.formatter.format_email(subject, sender_name, body,
    user_name)\<close>;
  \<^item> \<open>capitalize\<close>: \<^verbatim>\<open>str.capitalize\<close>, whose results leave the code points below 256;
  \<^item> \<open>str_number\<close>: the text of a match percentage in an f-string;
  \<^item> \<open>repr\<close>: \<^verbatim>\<open>repr\<close> of a string, as the message of a \<^verbatim>\<open>ValueError\<close> of
    \<^verbatim>\<open>int()\<close> shows it;
  \<^item> \<open>EmailMessage\<close>: the exception, if any, that setting the headers and the content
    of a message raises;
  \<^item> \<open>smtp_session\<close>: the block \<^verbatim>\<open>with smtplib.SMTP(server, port) as server: starttls,
    login, send_message\<close>, for a server, a port, an account, its secret and a message:
    the step of the block that raises, if any.\<close>

record 'n world =
  environ :: environ
  GEMINI_AVAILABLE :: bool
  ChatGoogleGenerativeAI :: "module \<Rightarrow> py_exception + llm"
  ChatOpenAI :: "module \<Rightarrow> string \<Rightarrow> py_exception + llm"
  format_email :: "string \<Rightarrow> string \<Rightarrow> string \<Rightarrow> string \<Rightarrow> string"
  capitalize :: "string \<Rightarrow> string"
  str_number :: "'n \<Rightarrow> string"
  repr :: "string \<Rightarrow> string"
  EmailMessage :: "email_message \<Rightarrow> py_exception option"
  smtp_session :: "string \<Rightarrow> int \<Rightarrow> string \<Rightarrow> string \<Rightarrow> email_message \<Rightarrow> smtp_outcome"

section \<open>Provider resolver (\<^verbatim>\<open>get_llm_model\<close>)\<close>

definition using_gemini :: "module \<Rightarrow> string" where
  "using_gemini m =
     (case m of ResumeAnalysis \<Rightarrow> ''Using Gemini model''
              | HRAgent \<Rightarrow> ''Using Gemini model for HR agent'')"

definition using_deepseek :: "module \<Rightarrow> string" where
  "using_deepseek m =
     (case m of ResumeAnalysis \<Rightarrow> ''Using DeepSeek model (fallback)''
              | HRAgent \<Rightarrow> ''Using DeepSeek model for HR agent (fallback)'')"

definition no_keys_found :: py_exception where
  "no_keys_found =
     ValueError (''No available LLM API keys found. '' @
                 ''Please set GEMINI_API_KEY or DEEPSEEK_API_KEY in .env file'')"

text \<open>The first attempt of \<^verbatim>\<open>get_llm_model\<close>: Gemini, when the package is there and
  its key is set. The result is the handle, if the attempt returned one, and the log
  records written.\<close>

definition try_gemini :: "module \<Rightarrow> 'n world \<Rightarrow> llm option \<times> event list" where
  "try_gemini m w =
     (if GEMINI_AVAILABLE w \<and> truthy (GEMINI_API_KEY (environ w)) then
        (case ChatGoogleGenerativeAI w m of
           Inr model \<Rightarrow> (Some model, [Log INFO (using_gemini m)])
         | Inl e \<Rightarrow>
             (None,
              [Log WARNING
                 (''Failed to initialize Gemini: '' @
                  sanitize_error_message (config_environ (environ w)) (str_exception e) None)]))
      else (None, []))"

text \<open>The second attempt: DeepSeek, when its key is set.\<close>

definition try_deepseek :: "module \<Rightarrow> 'n world \<Rightarrow> llm option \<times> event list" where
  "try_deepseek m w =
     (if truthy (DEEPSEEK_API_KEY (environ w)) then
        (case ChatOpenAI w m (the (DEEPSEEK_API_KEY (environ w))) of
           Inr model \<Rightarrow> (Some model, [Log INFO (using_deepseek m)])
         | Inl e \<Rightarrow>
             (None, [Log WARNING (''Failed to initialize DeepSeek: '' @ str_exception e)]))
      else (None, []))"

text \<open>\<^verbatim>\<open>get_llm_model()\<close> of the module \<open>m\<close>: the handle or the \<^verbatim>\<open>ValueError\<close> raised,
  and the log records written.\<close>

definition get_llm_model :: "module \<Rightarrow> 'n world \<Rightarrow> (py_exception + llm) \<times> event list" where
  "get_llm_model m w =
     (case try_gemini m w of
        (Some model, evs) \<Rightarrow> (Inr model, evs)
      | (None, evs) \<Rightarrow>
          (case try_deepseek m w of
             (Some model, evs') \<Rightarrow> (Inr model, evs @ evs')
           | (None, evs') \<Rightarrow> (Inl no_keys_found, evs @ evs')))"

section \<open>The conversational agent (\<^verbatim>\<open>HRConversationalAgent\<close>)\<close>

text \<open>The analysis dictionary, with the keys the agent reads and the types the
  docstring of \<^verbatim>\<open>analyze_resume\<close> gives them; \<open>None\<close> is an absent key. The type \<open>'n\<close>
  is the type of the match percentage.\<close>

record 'n resume_data =
  detailed_analysis :: "string option"
  match_percentage :: "'n option"
  position_level :: "string option"
  acceptance_probability :: "string option"
  key_strengths :: "string list option"
  key_gaps :: "string list option"
  resume_text :: "string option"

datatype message = SystemMessage string | HumanMessage string | AIMessage string

text \<open>The dictionary \<^verbatim>\<open>self.generated_email\<close>.\<close>

record draft =
  subject :: string
  body :: string
  to :: string

text \<open>The attributes of an agent. \<open>generated_email\<close> is \<open>None\<close> while the attribute
  does not exist (\<^verbatim>\<open>hasattr\<close> is false).\<close>

record 'n agent =
  resume_data :: "'n resume_data"
  job_description_text :: string
  candidate_email :: string
  hr_name :: string
  llm :: llm
  message_history :: "message list"
  generated_email :: "draft option"

text \<open>The texts \<open>chat\<close> returns. The texts of the source have code points beyond 255,
  so each is a constructor here:
  \<^item> \<open>Answer t\<close>: the model's answer \<open>t\<close> to a plain query;
  \<^item> \<open>EmailGenerated f c\<close>: "Email generated successfully!", the formatted email \<open>f\<close>
    and the invitation to send it to \<open>c\<close>;
  \<^item> \<open>NoEmailGenerated\<close>: "No email has been generated yet. Please generate an email
    first by saying 'prepare email' or 'create email'.";
  \<^item> \<open>EmailSent c\<close>: "Email sent successfully to \<open>c\<close>!";
  \<^item> \<open>EmailFailed c\<close>: "Failed to send email to \<open>c\<close>. Please check your email
    configuration.";
  \<^item> \<open>EmailError m\<close>: "Error sending email: \<open>m\<close>".\<close>

datatype reply =
    Answer string
  | EmailGenerated string string
  | NoEmailGenerated
  | EmailSent string
  | EmailFailed string
  | EmailError string

definition newline :: char where
  "newline = CHR 0x0A"

text \<open>The text of \<^verbatim>\<open>resume_data.get("match_percentage", 0)\<close> in an f-string.\<close>

definition match_text :: "'n world \<Rightarrow> 'n agent \<Rightarrow> string" where
  "match_text w a =
     (case match_percentage (resume_data a) of None \<Rightarrow> ''0'' | Some n \<Rightarrow> str_number w n)"

definition get_or :: "'a option \<Rightarrow> 'a \<Rightarrow> 'a" where
  "get_or v d = (case v of None \<Rightarrow> d | Some x \<Rightarrow> x)"

text \<open>The system prompt of \<^verbatim>\<open>_initialize_context\<close>.\<close>

definition system_prompt :: "'n world \<Rightarrow> 'n agent \<Rightarrow> string" where
  "system_prompt w a =
     (let full_resume_text =
            (case resume_text (resume_data a) of None \<Rightarrow> [] | Some t \<Rightarrow> take 2000 t);
          resume_text = get_or (detailed_analysis (resume_data a)) [];
          position_level = get_or (position_level (resume_data a)) ''Unknown'';
          acceptance_probability = get_or (acceptance_probability (resume_data a)) ''Unknown'';
          key_strengths = get_or (key_strengths (resume_data a)) [];
          key_gaps = get_or (key_gaps (resume_data a)) []
      in ''You are an expert HR assistant helping with candidate evaluation and communication. '' @
         ''You have access to the candidate's resume information and the job description. '' @
         ''ALWAYS use this information to answer questions accurately.'' @ [newline, newline] @
         ''=== CANDIDATE INFORMATION ==='' @ [newline] @
         ''Candidate Email: '' @ candidate_email a @ [newline] @
         ''Match Percentage: '' @ match_text w a @ ''%'' @ [newline] @
         ''Position Level Fit: '' @ position_level @ [newline] @
         ''Acceptance Probability: '' @ acceptance_probability @ [newline] @
         ''Key Strengths: '' @
           (if key_strengths \<noteq> [] then py_join '', '' key_strengths else ''None specified'') @
           [newline] @
         ''Key Gaps: '' @
           (if key_gaps \<noteq> [] then py_join '', '' key_gaps else ''None specified'') @ [newline] @
         [newline] @ ''Detailed Candidate Analysis:'' @ [newline] @ resume_text @ [newline] @
         (if full_resume_text \<noteq> []
          then [newline] @ ''Resume Text Excerpt:'' @ [newline] @ take 1500 full_resume_text
          else []) @ [newline, newline] @
         ''=== JOB DESCRIPTION ==='' @ [newline] @ take 2500 (job_description_text a) @
           [newline, newline] @
         ''=== YOUR ROLE ==='' @ [newline] @
         ''You MUST use the candidate and job information provided above to answer ALL questions. '' @
         ''When asked about:'' @ [newline] @
         ''- Candidate email: Provide '' @ candidate_email a @ [newline] @
         ''- Job match: Use the match percentage ('' @ match_text w a @
           ''%) and detailed analysis'' @ [newline] @
         ''- Candidate experience/skills: Refer to the resume information and analysis above'' @
           [newline] @
         ''- Any candidate details: Use the information provided in the candidate section'' @
           [newline, newline] @
         ''IMPORTANT: You have the candidate and job information. Use it to answer questions directly. '' @
         ''Do NOT ask for information that is already provided above.'')"

text \<open>\<^verbatim>\<open>_initialize_context\<close>: the system message is added to the history.\<close>

definition initialize_context :: "'n world \<Rightarrow> 'n agent \<Rightarrow> 'n agent" where
  "initialize_context w a =
     a\<lparr>message_history := message_history a @ [SystemMessage (system_prompt w a)]\<rparr>"

text \<open>\<^verbatim>\<open>HRConversationalAgent(resume_data, job_description_text, candidate_email,
  hr_name)\<close>, which \<^verbatim>\<open>create_hr_agent\<close> calls: the new agent or the exception of the
  resolver, and the log records.\<close>

definition HRConversationalAgent ::
  "'n world \<Rightarrow> 'n resume_data \<Rightarrow> string \<Rightarrow> string \<Rightarrow> string \<Rightarrow>
     (py_exception + 'n agent) \<times> event list" where
  "HRConversationalAgent w rd jd email hr =
     (case get_llm_model HRAgent w of
        (Inl e, evs) \<Rightarrow> (Inl e, evs)
      | (Inr model, evs) \<Rightarrow>
          (Inr (initialize_context w
                  \<lparr>resume_data = rd, job_description_text = jd, candidate_email = email,
                   hr_name = hr, llm = model, message_history = [],
                   generated_email = None\<rparr>),
           evs))"

text \<open>\<^verbatim>\<open>_extract_candidate_name\<close>\<close>

definition extract_candidate_name :: "'n world \<Rightarrow> 'n agent \<Rightarrow> string" where
  "extract_candidate_name w a =
     (if py_in ''@'' (candidate_email a) then
        (let name_part = takeWhile (\<lambda>c. c \<noteq> CHR ''@'') (candidate_email a)
         in capitalize w (takeWhile (\<lambda>c. c \<noteq> CHR ''.'') name_part))
      else ''Candidate'')"

subsection \<open>The subject of a generated email\<close>

text \<open>The search of \<^verbatim>\<open>subject[:\s]+([^\n]+)\<close>, ignoring case, in the query. After the
  word, the separators are taken as far as they go; the group is then the text up to
  the end of the line. When the separators reach the end of the text, the matcher gives
  them back one by one, down to one separator, until the group can start: at the last
  of them that is not a newline.\<close>

definition is_sep :: "char \<Rightarrow> bool" where
  "is_sep c = (c = CHR '':'' \<or> py_isspace c)"

definition line_of :: "string \<Rightarrow> string" where
  "line_of s = takeWhile (\<lambda>c. c \<noteq> newline) s"

text \<open>The group of a match that starts with the word just before \<open>rest\<close>.\<close>

definition subject_group :: "string \<Rightarrow> string option" where
  "subject_group rest =
     (let seps = takeWhile is_sep rest; after = dropWhile is_sep rest
      in if seps = [] then None
         else if after \<noteq> [] then Some (line_of after)
         else (case find (\<lambda>k. seps ! k \<noteq> newline) (rev [1 ..< length seps]) of
                 None \<Rightarrow> None
               | Some k \<Rightarrow> Some (line_of (drop k seps))))"

fun search_subject :: "string \<Rightarrow> string option" where
  "search_subject [] = None"
| "search_subject (c # s) =
     (if py_lower (take 7 (c # s)) = ''subject'' then
        (case subject_group (drop 7 (c # s)) of
           Some g \<Rightarrow> Some g
         | None \<Rightarrow> search_subject s)
      else search_subject s)"

subsection \<open>Generating a draft\<close>

definition email_prompt :: "'n world \<Rightarrow> 'n agent \<Rightarrow> string \<Rightarrow> string" where
  "email_prompt w a query =
     ''Generate a professional email to the candidate based on the following instructions:'' @
       [newline, newline] @
     ''HR Instructions: '' @ query @ [newline, newline] @
     ''Job Description Context:'' @ [newline] @ take 1000 (job_description_text a) @ ''...'' @
       [newline, newline] @
     ''Candidate Context:'' @ [newline] @
     ''- Match: '' @ match_text w a @ ''%'' @ [newline] @
     ''- Level: '' @ get_or (position_level (resume_data a)) ''Unknown'' @ [newline] @
     ''- Strengths: '' @ py_join '', '' (get_or (key_strengths (resume_data a)) []) @
       [newline, newline] @
     ''Generate ONLY the email body content (without subject, greeting, or signature). '' @
     ''Make it professional, personalized, and relevant. Include specific details from the job description. '' @
     ''Keep it concise but comprehensive.''"

text \<open>\<^verbatim>\<open>_generate_email\<close>: the reply or the exception of the model, the agent after the
  call and what happened outside. The draft is stored once the model has answered.\<close>

definition generate_email ::
  "'n world \<Rightarrow> 'n agent \<Rightarrow> string \<Rightarrow> (py_exception + reply) \<times> 'n agent \<times> event list" where
  "generate_email w a query =
     (let subject = (case search_subject query of
                       Some g \<Rightarrow> py_strip g
                     | None \<Rightarrow> ''Regarding Your Application'');
          prompt = email_prompt w a query
      in case invoke (llm a) prompt of
           Inl e \<Rightarrow> (Inl e, a, [Invoke prompt])
         | Inr email_body \<Rightarrow>
             (let a' = a\<lparr>generated_email :=
                          Some \<lparr>subject = subject, body = py_strip email_body,
                                to = candidate_email a\<rparr>\<rparr>;
                  formatted = format_email w subject (extract_candidate_name w a')
                                (py_strip email_body) (hr_name a')
              in (Inr (EmailGenerated formatted (candidate_email a')), a', [Invoke prompt])))"

subsection \<open>Sending the draft\<close>

text \<open>The four values a caller may pass to \<open>chat\<close> for the transport: the account,
  its secret, the host and the port.\<close>

record smtp_args =
  smtp_username :: "string option"
  smtp_password :: "string option"
  smtp_server :: "string option"
  smtp_port :: "string option"

text \<open>The log records of the block, as far as it got, and its exception if any.\<close>

definition session_events :: "string \<Rightarrow> string \<Rightarrow> smtp_outcome \<Rightarrow> event list \<times> py_exception option" where
  "session_events username recipient_email outcome =
     (let tls = Log DEBUG ''Starting TLS...'';
          login = Log DEBUG (''Logging in as '' @ username);
          sending = Log DEBUG (''Sending email to '' @ recipient_email);
          done = Log INFO (''Email sent successfully to '' @ recipient_email)
      in case outcome of
           ConnectRaised e \<Rightarrow> ([], Some e)
         | StarttlsRaised e \<Rightarrow> ([tls], Some e)
         | LoginRaised e \<Rightarrow> ([tls, login], Some e)
         | SendRaised e \<Rightarrow> ([tls, login, sending], Some e)
         | QuitRaised e \<Rightarrow> ([tls, login, sending, done], Some e)
         | Sent \<Rightarrow> ([tls, login, sending, done], None))"

text \<open>The \<^verbatim>\<open>try\<close> block of \<^verbatim>\<open>_send_email_to_candidate\<close>: what it returns or raises,
  and what happened outside. (The candidate name it computes is not used; the
  parameters \<open>subject\<close> and \<open>body\<close> carry a prime here, the names being those of the
  draft's fields.)\<close>

definition send_email_try ::
  "'n world \<Rightarrow> string \<Rightarrow> string \<Rightarrow> string \<Rightarrow> smtp_args \<Rightarrow> (py_exception + bool) \<times> event list" where
  "send_email_try w subject' body' recipient_email args =
     (let username = py_or (smtp_username args) (EMAIL_USERNAME (environ w));
          password = py_or (smtp_password args) (EMAIL_PASSWORD (environ w));
          server_addr = py_or (smtp_server args) (EMAIL_SERVER (environ w));
          port = py_or (smtp_port args) (EMAIL_PORT (environ w))
      in if \<not> list_all truthy [username, password, server_addr, port] then
           (Inr False, [Log ERROR ''Missing email credentials''])
         else
           (let formatted_content = py_strip body';
                msg = \<lparr>Subject = subject', From = the username, To = recipient_email,
                       content = formatted_content\<rparr>
            in case EmailMessage w msg of
                 Some e \<Rightarrow> (Inl e, [])
               | None \<Rightarrow>
                   (let connecting =
                          Log DEBUG (''Connecting to SMTP server '' @ the server_addr @ '':'' @
                                     the port)
                    in case py_int (the port) of
                         None \<Rightarrow>
                           (Inl (ValueError (''invalid literal for int() with base 10: '' @
                                             repr w (the port))),
                            [connecting])
                       | Some p \<Rightarrow>
                           (let outcome = smtp_session w (the server_addr) p (the username)
                                            (the password) msg;
                                (evs, raised) =
                                  session_events (the username) recipient_email outcome
                            in ((case raised of Some e \<Rightarrow> Inl e | None \<Rightarrow> Inr True),
                                [connecting,
                                 SmtpSession (the server_addr) p (the username) (the password)
                                   msg] @ evs)))))"

text \<open>\<^verbatim>\<open>_send_email_to_candidate\<close>: the handler \<^verbatim>\<open>except Exception\<close> logs the cause and
  returns \<^verbatim>\<open>False\<close>.\<close>

definition send_email_to_candidate ::
  "'n world \<Rightarrow> string \<Rightarrow> string \<Rightarrow> string \<Rightarrow> smtp_args \<Rightarrow> (py_exception + bool) \<times> event list" where
  "send_email_to_candidate w subject' body' recipient_email args =
     (case send_email_try w subject' body' recipient_email args of
        (Inr success, evs) \<Rightarrow> (Inr success, evs)
      | (Inl e, evs) \<Rightarrow>
          (Inr False,
           evs @ [Log ERROR (''Failed to send email to candidate: '' @ str_exception e)]))"

text \<open>\<^verbatim>\<open>_handle_send_request\<close>\<close>

definition handle_send_request ::
  "'n world \<Rightarrow> 'n agent \<Rightarrow> smtp_args \<Rightarrow> (py_exception + reply) \<times> event list" where
  "handle_send_request w a args =
     (case generated_email a of
        None \<Rightarrow> (Inr NoEmailGenerated, [])
      | Some d \<Rightarrow>
          (case send_email_to_candidate w (subject d) (body d) (candidate_email a) args of
             (Inr success, evs) \<Rightarrow>
               (Inr (if success then EmailSent (candidate_email a)
                     else EmailFailed (candidate_email a)),
                evs)
           | (Inl e, evs) \<Rightarrow>
               (Inr (EmailError (str_exception e)),
                evs @ [Log ERROR (''Error sending email: '' @ str_exception e)])))"

subsection \<open>The conversation\<close>

definition system_msgs :: "message list \<Rightarrow> string list" where
  "system_msgs ms = concat (map (\<lambda>m. case m of SystemMessage c \<Rightarrow> [c] | _ \<Rightarrow> []) ms)"

definition conversation_msgs :: "message list \<Rightarrow> (string \<times> string) list" where
  "conversation_msgs ms =
     concat (map (\<lambda>m. case m of
                         SystemMessage c \<Rightarrow> []
                       | HumanMessage c \<Rightarrow> [(''human'', c)]
                       | AIMessage c \<Rightarrow> [(''ai'', c)]) ms)"

text \<open>The plain query of \<open>chat\<close>: the system message first (written again if the
  history has none), the conversation so far, and the query; the two new messages are
  added to the history once the model has answered.\<close>

definition plain_query ::
  "'n world \<Rightarrow> 'n agent \<Rightarrow> string \<Rightarrow> (py_exception + reply) \<times> 'n agent \<times> event list" where
  "plain_query w a query =
     (let a1 = (if system_msgs (message_history a) \<noteq> [] then a else initialize_context w a);
          messages_list =
            (case system_msgs (message_history a1) of
               [] \<Rightarrow> []
             | c # _ \<Rightarrow> [(''system'', c)]) @
            conversation_msgs (message_history a1) @
            [(''human'', ''{input}'')];
          user_query = query
      in case chain_invoke (llm a1) messages_list user_query of
           Inl e \<Rightarrow> (Inl e, a1, [ChainInvoke messages_list user_query])
         | Inr response_text \<Rightarrow>
             (Inr (Answer response_text),
              a1\<lparr>message_history :=
                   message_history a1 @ [HumanMessage user_query, AIMessage response_text]\<rparr>,
              [ChainInvoke messages_list user_query]))"

text \<open>\<^verbatim>\<open>HRConversationalAgent.chat\<close>: the reply or the exception raised, the agent after
  the call and what happened outside.\<close>

definition chat ::
  "'n world \<Rightarrow> 'n agent \<Rightarrow> string \<Rightarrow> smtp_args \<Rightarrow> (py_exception + reply) \<times> 'n agent \<times> event list" where
  "chat w a query args =
     (case chat_intent query of
        GenerateEmail \<Rightarrow> generate_email w a query
      | SendEmail \<Rightarrow> (case handle_send_request w a args of (r, evs) \<Rightarrow> (r, a, evs))
      | Query \<Rightarrow> plain_query w a query)"

text \<open>A conversation: the calls of \<open>chat\<close> one after the other, each a query with its
  transport arguments. A call that raises leaves the agent as it was at the raise, and
  the conversation goes on. The result is the list of replies, the agent at the end and
  all that happened outside.\<close>

fun chats ::
  "'n world \<Rightarrow> 'n agent \<Rightarrow> (string \<times> smtp_args) list \<Rightarrow>
     (py_exception + reply) list \<times> 'n agent \<times> event list" where
  "chats w a [] = ([], a, [])"
| "chats w a ((query, args) # calls) =
     (case chat w a query args of
        (r, a', evs) \<Rightarrow>
          (case chats w a' calls of
             (rs, a'', evs') \<Rightarrow> (r # rs, a'', evs @ evs')))"

section \<open>Notions used in the statements\<close>

text \<open>Every attempt of the resolver is exhausted: the first attempt is not made or
  its constructor raises, and so for the second.\<close>

definition attempts_exhausted :: "module \<Rightarrow> 'n world \<Rightarrow> bool" where
  "attempts_exhausted m w \<longleftrightarrow>
     (\<not> (GEMINI_AVAILABLE w \<and> truthy (GEMINI_API_KEY (environ w))) \<or>
      (\<exists>e. ChatGoogleGenerativeAI w m = Inl e)) \<and>
     (\<not> truthy (DEEPSEEK_API_KEY (environ w)) \<or>
      (\<exists>e. ChatOpenAI w m (the (DEEPSEEK_API_KEY (environ w))) = Inl e))"

text \<open>The four transport parameters after the fallback to the configuration: the
  account, its secret, the host and the port.\<close>

definition resolved :: "'n world \<Rightarrow> smtp_args \<Rightarrow> string option list" where
  "resolved w args =
     [py_or (smtp_username args) (EMAIL_USERNAME (environ w)),
      py_or (smtp_password args) (EMAIL_PASSWORD (environ w)),
      py_or (smtp_server args) (EMAIL_SERVER (environ w)),
      py_or (smtp_port args) (EMAIL_PORT (environ w))]"

section \<open>A sample world\<close>

text \<open>A world, an analysis and an agent on which the model is run: DeepSeek is the
  only provider with a key, the model answers every request with fixed texts, and the
  mail server accepts the session.\<close>

definition sample_llm :: llm where
  "sample_llm =
     \<lparr>provider = DeepSeek,
      invoke = (\<lambda>prompt. Inr ''  We would like to invite you to an interview. ''),
      chain_invoke = (\<lambda>ms q. Inr ''Five years.'')\<rparr>"

definition sample_world :: "nat world" where
  "sample_world =
     \<lparr>environ = [''DEEPSEEK_API_KEY'' \<mapsto> ''sk-0123456789abcdef'',
                 ''EMAIL_SERVER'' \<mapsto> ''smtp.example.com'',
                 ''EMAIL_PORT'' \<mapsto> ''587''],
      GEMINI_AVAILABLE = True,
      ChatGoogleGenerativeAI = (\<lambda>m. Inl (Exception ''no API key'')),
      ChatOpenAI = (\<lambda>m key. Inr sample_llm),
      format_email = (\<lambda>subject sender_name body user_name. subject @ [newline] @ body),
      capitalize = (\<lambda>s. s),
      str_number = (\<lambda>n. ''73.0''),
      repr = (\<lambda>s. s),
      EmailMessage = (\<lambda>msg. None),
      smtp_session = (\<lambda>server port username password msg.
                        if password = ''right'' then Sent
                        else LoginRaised (Exception ''Username and Password not accepted''))\<rparr>"

definition sample_data :: "nat resume_data" where
  "sample_data =
     \<lparr>detailed_analysis = Some ''A good match.'', match_percentage = Some 73,
      position_level = Some ''Senior'', acceptance_probability = Some ''High'',
      key_strengths = Some [''Python'', ''SQL''], key_gaps = Some [], resume_text = None\<rparr>"

definition sample_agent :: "nat agent" where
  "sample_agent =
     initialize_context sample_world
       \<lparr>resume_data = sample_data, job_description_text = ''Backend engineer'',
        candidate_email = ''jane.doe@example.com'', hr_name = ''HR Team'',
        llm = sample_llm, message_history = [], generated_email = None\<rparr>"

definition no_args :: smtp_args where
  "no_args = \<lparr>smtp_username = None, smtp_password = None, smtp_server = None,
               smtp_port = None\<rparr>"

definition sample_args :: "string \<Rightarrow> smtp_args" where
  "sample_args password =
     \<lparr>smtp_username = Some ''hr@example.com'', smtp_password = Some password,
      smtp_server = None, smtp_port = None\<rparr>"

text \<open>A request for a draft, the draft the sample model's answer gives, the agent that
  holds it, and the message that is sent from it.\<close>

definition sample_request :: string where
  "sample_request = ''Please draft email for the candidate. Subject: Interview''"

definition sample_draft :: draft where
  "sample_draft =
     \<lparr>subject = ''Interview'', body = ''We would like to invite you to an interview.'',
      to = ''jane.doe@example.com''\<rparr>"

definition sample_drafted :: "nat agent" where
  "sample_drafted = sample_agent\<lparr>generated_email := Some sample_draft\<rparr>"



definition sample_question :: string where
  "sample_question = ''What is the candidate's experience?''"






section \<open>Properties of the string primitives\<close>

lemma py_in_iff: "py_in k s \<longleftrightarrow> (\<exists>a b. s = a @ k @ b)"
proof (induction s)
  case Nil
  then show ?case by auto
next
  case (Cons c s)
  show ?case
  proof
    assume "py_in k (c # s)"
    then consider "prefix k (c # s)" | "py_in k s" by auto
    then show "\<exists>a b. c # s = a @ k @ b"
    proof cases
      case 1
      then obtain b where "c # s = k @ b" by (auto simp: prefix_def)
      then have "c # s = [] @ k @ b" by simp
      then show ?thesis by blast
    next
      case 2
      with Cons.IH obtain a b where "s = a @ k @ b" by blast
      then have "c # s = (c # a) @ k @ b" by simp
      then show ?thesis by blast
    qed
  next
    assume "\<exists>a b. c # s = a @ k @ b"
    then obtain a b where ab: "c # s = a @ k @ b" by blast
    show "py_in k (c # s)"
    proof (cases a)
      case Nil
      with ab have "prefix k (c # s)" by (simp add: prefix_def)
      then show ?thesis by simp
    next
      case (Cons x a')
      with ab have "s = a' @ k @ b" by simp
      with Cons.IH have "py_in k s" by blast
      then show ?thesis by simp
    qed
  qed
qed

lemma py_lower_char_idem: "py_lower_char (py_lower_char c) = py_lower_char c"
proof -
  have "of_char (char_of (of_char c + 32 :: nat)) = (of_char c + 32 :: nat)"
    if "(of_char c :: nat) \<le> 222" for c :: char
    using that by simp
  then show ?thesis
    by (auto simp: py_lower_char_def Let_def)
qed

lemma py_lower_idem: "py_lower (py_lower s) = py_lower s"
  by (simp add: py_lower_def py_lower_char_idem)

section \<open>Intent classification: the routing order\<close>

lemma is_email_request_iff:
  "is_email_request q \<longleftrightarrow> (\<exists>k \<in> set email_keywords. \<exists>a b. py_lower q = a @ k @ b)"
  by (simp add: is_email_request_def list_ex_iff py_in_iff)

lemma is_send_request_iff:
  "is_send_request q \<longleftrightarrow> (\<exists>k \<in> set send_keywords. \<exists>a b. py_lower q = a @ k @ b)"
  by (simp add: is_send_request_def list_ex_iff py_in_iff)

text \<open>
  Claim C1. For every utterance the generate-email keywords are tested before the
  send-email keywords, each test being a substring test on the lower-cased utterance,
  and an utterance that matches neither is a plain query. So an utterance with a keyword
  of both sets is a generate-email request, and the classification does not depend on
  the case of the letters. The four utterances of the specification are classified as
  it says.
\<close>

theorem chat_intent_priority:
  "(is_email_request q \<longleftrightarrow> (\<exists>k \<in> set email_keywords. \<exists>a b. py_lower q = a @ k @ b)) \<and>
   (is_send_request q \<longleftrightarrow> (\<exists>k \<in> set send_keywords. \<exists>a b. py_lower q = a @ k @ b)) \<and>
   (is_email_request q \<longrightarrow> chat_intent q = GenerateEmail) \<and>
   (is_email_request q \<and> is_send_request q \<longrightarrow> chat_intent q = GenerateEmail) \<and>
   (\<not> is_email_request q \<and> is_send_request q \<longrightarrow> chat_intent q = SendEmail) \<and>
   (\<not> is_email_request q \<and> \<not> is_send_request q \<longrightarrow> chat_intent q = Query) \<and>
   (py_lower q = py_lower q' \<longrightarrow> chat_intent q = chat_intent q') \<and>
   chat_intent (py_lower q) = chat_intent q \<and>
   chat_intent ''Please draft email for candidate'' = GenerateEmail \<and>
   chat_intent ''send the email now'' = SendEmail \<and>
   chat_intent ''draft email then send email'' = GenerateEmail \<and>
   chat_intent ''What is the candidate's experience?'' = Query"
proof -
  have case_insensitive: "chat_intent u = chat_intent v" if "py_lower u = py_lower v"
    for u v
    using that by (simp add: chat_intent_def is_email_request_def is_send_request_def)
  have lowered: "chat_intent (py_lower q) = chat_intent q"
    by (rule case_insensitive) (rule py_lower_idem)
  have e1: "chat_intent ''Please draft email for candidate'' = GenerateEmail"
    by code_simp
  have e2: "chat_intent ''send the email now'' = SendEmail"
    by code_simp
  have e3: "chat_intent ''draft email then send email'' = GenerateEmail"
    by code_simp
  have e4: "chat_intent ''What is the candidate's experience?'' = Query"
    by code_simp
  have routing:
    "(is_email_request q \<longrightarrow> chat_intent q = GenerateEmail) \<and>
     (is_email_request q \<and> is_send_request q \<longrightarrow> chat_intent q = GenerateEmail) \<and>
     (\<not> is_email_request q \<and> is_send_request q \<longrightarrow> chat_intent q = SendEmail) \<and>
     (\<not> is_email_request q \<and> \<not> is_send_request q \<longrightarrow> chat_intent q = Query)"
    by (simp add: chat_intent_def)
  from is_email_request_iff [of q] is_send_request_iff [of q] routing
    case_insensitive [of q q'] lowered e1 e2 e3 e4
  show ?thesis by blast
qed

theorem chat_intent_priority_witness:
  "is_email_request ''Draft Email, then SEND EMAIL'' \<and>
   is_send_request ''Draft Email, then SEND EMAIL'' \<and>
   chat_intent ''Draft Email, then SEND EMAIL'' = GenerateEmail \<and>
   \<not> is_email_request ''Send It'' \<and> is_send_request ''Send It'' \<and>
   chat_intent ''Send It'' = SendEmail \<and>
   chat_intent ''SEND IT'' = chat_intent ''send it''"
proof -
  have h1: "is_email_request ''Draft Email, then SEND EMAIL''" by code_simp
  have h2: "is_send_request ''Draft Email, then SEND EMAIL''" by code_simp
  have h3: "\<not> is_email_request ''Send It''" by code_simp
  have h4: "is_send_request ''Send It''" by code_simp
  have h5: "py_lower ''SEND IT'' = py_lower ''send it''" by code_simp
  show ?thesis
    using h1 h2 h3 h4 h5
      chat_intent_priority [of "''Draft Email, then SEND EMAIL''" "''x''"]
      chat_intent_priority [of "''Send It''" "''x''"]
      chat_intent_priority [of "''SEND IT''" "''send it''"]
    by simp
qed


section \<open>Provider resolver: the order of the attempts\<close>

lemma get_llm_model_cases:
  "fst (get_llm_model m w) =
     (if GEMINI_AVAILABLE w \<and> truthy (GEMINI_API_KEY (environ w)) \<and> \<not> isl (ChatGoogleGenerativeAI w m)
      then ChatGoogleGenerativeAI w m
      else if truthy (DEEPSEEK_API_KEY (environ w)) \<and>
              \<not> isl (ChatOpenAI w m (the (DEEPSEEK_API_KEY (environ w))))
      then ChatOpenAI w m (the (DEEPSEEK_API_KEY (environ w)))
      else Inl no_keys_found)"
  by (auto simp: get_llm_model_def try_gemini_def try_deepseek_def split: sum.splits)

text \<open>
  Claim C7. The resolver tries the primary provider (Gemini) first and the secondary
  (DeepSeek) second. When the primary's credential is absent, or its constructor raises,
  and the secondary's credential is present and its constructor returns a handle, that
  handle is the result and nothing is raised. The resolver raises exactly when every
  attempt is exhausted (no credential, or a constructor that raises), and what it raises
  then is the one error of the source.
\<close>

theorem get_llm_model_fallback:
  "(\<not> truthy (GEMINI_API_KEY (environ w)) \<and> truthy (DEEPSEEK_API_KEY (environ w)) \<and>
      ChatOpenAI w m (the (DEEPSEEK_API_KEY (environ w))) = Inr model
      \<longrightarrow> fst (get_llm_model m w) = Inr model) \<and>
   (GEMINI_AVAILABLE w \<and> truthy (GEMINI_API_KEY (environ w)) \<and>
      ChatGoogleGenerativeAI w m = Inr model
      \<longrightarrow> fst (get_llm_model m w) = Inr model) \<and>
   ((\<exists>e. ChatGoogleGenerativeAI w m = Inl e) \<and> truthy (DEEPSEEK_API_KEY (environ w)) \<and>
      ChatOpenAI w m (the (DEEPSEEK_API_KEY (environ w))) = Inr model
      \<longrightarrow> fst (get_llm_model m w) = Inr model) \<and>
   (attempts_exhausted m w \<longleftrightarrow> fst (get_llm_model m w) = Inl no_keys_found) \<and>
   (attempts_exhausted m w \<longleftrightarrow> (\<exists>e. fst (get_llm_model m w) = Inl e))"
  unfolding get_llm_model_cases attempts_exhausted_def
  by (cases "ChatGoogleGenerativeAI w m"; cases "ChatOpenAI w m (the (DEEPSEEK_API_KEY (environ w)))") auto

theorem get_llm_model_fallback_witness:
  "fst (get_llm_model HRAgent sample_world) = Inr sample_llm \<and>
   attempts_exhausted ResumeAnalysis (sample_world\<lparr>environ := Map.empty\<rparr>) \<and>
   fst (get_llm_model ResumeAnalysis (sample_world\<lparr>environ := Map.empty\<rparr>)) = Inl no_keys_found"
proof -
  have h1: "\<not> truthy (GEMINI_API_KEY (environ sample_world)) \<and>
            truthy (DEEPSEEK_API_KEY (environ sample_world)) \<and>
            ChatOpenAI sample_world HRAgent (the (DEEPSEEK_API_KEY (environ sample_world))) =
              Inr sample_llm"
    by (simp add: sample_world_def truthy_def GEMINI_API_KEY_def DEEPSEEK_API_KEY_def)
  have h2: "attempts_exhausted ResumeAnalysis (sample_world\<lparr>environ := Map.empty\<rparr>)"
    by (simp add: attempts_exhausted_def truthy_def GEMINI_API_KEY_def DEEPSEEK_API_KEY_def)
  show ?thesis
    using h1 h2 get_llm_model_fallback [of sample_world HRAgent sample_llm]
      get_llm_model_fallback [of "sample_world\<lparr>environ := Map.empty\<rparr>" ResumeAnalysis sample_llm]
    by blast
qed

section \<open>Dispatch: credentials, failures, no exception\<close>

lemma send_missing:
  "\<not> list_all truthy (resolved w args) \<Longrightarrow>
   send_email_to_candidate w s b r args = (Inr False, [Log ERROR ''Missing email credentials''])"
  by (simp add: send_email_to_candidate_def send_email_try_def resolved_def Let_def)

lemma send_never_raises: "\<exists>ok. fst (send_email_to_candidate w s b r args) = Inr ok"
  by (auto simp: send_email_to_candidate_def split: prod.splits sum.splits)

lemma handle_never_raises: "\<exists>rep. fst (handle_send_request w a args) = Inr rep"
  by (auto simp: handle_send_request_def split: option.splits prod.splits sum.splits)

lemma send_transport_failure:
  assumes "list_all truthy (resolved w args)"
    and "msg = \<lparr>Subject = s, From = the (resolved w args ! 0), To = r, content = py_strip b\<rparr>"
    and "EmailMessage w msg = None"
    and "py_int (the (resolved w args ! 3)) = Some p"
    and "session_events (the (resolved w args ! 0)) r
           (smtp_session w (the (resolved w args ! 2)) p (the (resolved w args ! 0))
              (the (resolved w args ! 1)) msg) = (evs, Some e)"
  shows "\<exists>evs'. send_email_to_candidate w s b r args =
           (Inr False, evs' @ [Log ERROR (''Failed to send email to candidate: '' @ str_exception e)])"
  using assms
  by (simp add: send_email_to_candidate_def send_email_try_def resolved_def Let_def)

lemma send_email_try_False:
  "send_email_try w s b r args = (Inr False, evs) \<Longrightarrow>
   evs = [Log ERROR ''Missing email credentials'']"
  by (auto simp: send_email_try_def Let_def split: prod.splits option.splits if_splits)

lemma send_failure_logged:
  assumes "send_email_to_candidate w s b r args = (Inr False, evs)"
  shows "evs = [Log ERROR ''Missing email credentials''] \<or>
   (\<exists>evs' e. evs = evs' @ [Log ERROR (''Failed to send email to candidate: '' @ str_exception e)])"
proof (cases "send_email_try w s b r args")
  case (Pair res evs0)
  show ?thesis
  proof (cases res)
    case (Inl e)
    with Pair assms show ?thesis
      by (auto simp: send_email_to_candidate_def)
  next
    case (Inr ok)
    with Pair assms have "send_email_try w s b r args = (Inr False, evs)"
      by (auto simp: send_email_to_candidate_def)
    then show ?thesis by (simp add: send_email_try_False)
  qed
qed



lemma chat_generate: "chat_intent q = GenerateEmail \<Longrightarrow> chat w a q args = generate_email w a q"
  by (simp add: chat_def)

lemma chat_send:
  "chat_intent q = SendEmail \<Longrightarrow>
   chat w a q args = (fst (handle_send_request w a args), a, snd (handle_send_request w a args))"
  by (simp add: chat_def split: prod.splits)

lemma chat_query: "chat_intent q = Query \<Longrightarrow> chat w a q args = plain_query w a q"
  by (simp add: chat_def)



lemma generate_email_history:
  "generate_email w a q = (r, a', evs) \<Longrightarrow> message_history a' = message_history a"
  by (auto simp: generate_email_def Let_def split: sum.splits)



lemma session_events_logs:
  "session_events u r outcome = (evs, raised) \<Longrightarrow> ev \<in> set evs \<Longrightarrow> \<exists>l t. ev = Log l t"
  by (cases outcome) (auto simp: session_events_def Let_def)






lemma system_msgs_append [simp]: "system_msgs (xs @ ys) = system_msgs xs @ system_msgs ys"
  by (simp add: system_msgs_def)

lemma conversation_msgs_roles: "(role, c) \<in> set (conversation_msgs ms) \<Longrightarrow> role \<noteq> ''system''"
proof -
  assume "(role, c) \<in> set (conversation_msgs ms)"
  then obtain m where "m \<in> set ms"
    and "(role, c) \<in> set (case m of SystemMessage c \<Rightarrow> []
                                   | HumanMessage c \<Rightarrow> [(''human'', c)]
                                   | AIMessage c \<Rightarrow> [(''ai'', c)])"
    by (auto simp: conversation_msgs_def)
  then show ?thesis by (auto split: message.splits)
qed

lemma plain_query_ok:
  assumes "system_msgs (message_history a) = [c]"
  shows "plain_query w a q =
     (let ms = (''system'', c) # conversation_msgs (message_history a) @ [(''human'', ''{input}'')]
      in case chain_invoke (llm a) ms q of
           Inl e \<Rightarrow> (Inl e, a, [ChainInvoke ms q])
         | Inr t \<Rightarrow> (Inr (Answer t),
                     a\<lparr>message_history := message_history a @ [HumanMessage q, AIMessage t]\<rparr>,
                     [ChainInvoke ms q]))"
  using assms by (simp add: plain_query_def Let_def split: sum.splits)

lemma chat_system_msgs:
  assumes "system_msgs (message_history a) = [c]" and "chat w a q args = (r, a', evs)"
  shows "system_msgs (message_history a') = [c]"
proof (cases "chat_intent q")
  case Query
  with assms show ?thesis
    by (auto simp: chat_query plain_query_ok Let_def system_msgs_def split: sum.splits)
next
  case GenerateEmail
  with assms show ?thesis by (auto simp: chat_generate dest: generate_email_history)
next
  case SendEmail
  with assms show ?thesis by (auto simp: chat_send)
qed

lemma chat_invocations:
  assumes "system_msgs (message_history a) = [c]" and "chat w a q args = (r, a', evs)"
    and "ChainInvoke ms i \<in> set evs"
  shows "\<exists>rest. ms = (''system'', c) # rest \<and> (\<forall>(role, t) \<in> set rest. role \<noteq> ''system'')"
proof (cases "chat_intent q")
  case Query
  with assms have "ms = (''system'', c) # conversation_msgs (message_history a) @ [(''human'', ''{input}'')]"
    by (auto simp: chat_query plain_query_ok Let_def split: sum.splits)
  then show ?thesis by (auto dest: conversation_msgs_roles)
next
  case GenerateEmail
  with assms show ?thesis
    by (auto simp: chat_generate generate_email_def Let_def split: sum.splits)
next
  case SendEmail
  have no: "ChainInvoke ms i \<notin> set (snd (send_email_try w s b rc args))" for s b rc
    by (auto simp: send_email_try_def Let_def split: option.splits prod.splits if_splits
        dest: session_events_logs)
  have no2: "ChainInvoke ms i \<notin> set (snd (send_email_to_candidate w s b rc args))" for s b rc
    using no [of s b rc]
    by (cases "send_email_try w s b rc args"; cases "fst (send_email_try w s b rc args)")
       (auto simp: send_email_to_candidate_def)
  have "ChainInvoke ms i \<notin> set (snd (handle_send_request w a args))"
    using no2 send_never_raises
    by (auto simp: handle_send_request_def split: option.splits prod.splits sum.splits)
       (metis snd_conv)+
  with SendEmail assms show ?thesis by (auto simp: chat_send)
qed

lemma chats_invariant:
  assumes "system_msgs (message_history a) = [c]" and "chats w a calls = (rs, a', evs)"
  shows "system_msgs (message_history a') = [c] \<and>
         (\<forall>ms i. ChainInvoke ms i \<in> set evs \<longrightarrow>
            (\<exists>rest. ms = (''system'', c) # rest \<and> (\<forall>(role, t) \<in> set rest. role \<noteq> ''system'')))"
  using assms
proof (induction calls arbitrary: a a' rs evs)
  case Nil
  then show ?case by simp
next
  case (Cons call calls)
  obtain q args where call: "call = (q, args)" by (cases call)
  obtain r a1 evs1 where c1: "chat w a q args = (r, a1, evs1)" by (cases "chat w a q args")
  obtain rs2 a2 evs2 where c2: "chats w a1 calls = (rs2, a2, evs2)" by (cases "chats w a1 calls")
  from Cons.prems(2) call c1 c2 have eq: "a' = a2" "evs = evs1 @ evs2" by auto
  have s1: "system_msgs (message_history a1) = [c]"
    using chat_system_msgs [OF Cons.prems(1) c1] .
  from Cons.IH [OF s1 c2] chat_invocations [OF Cons.prems(1) c1] eq
  show ?case by auto
qed

lemma fresh_agent:
  "HRConversationalAgent w rd jd em hr = (Inr a, evs) \<Longrightarrow>
   generated_email a = None \<and> (\<exists>c. message_history a = [SystemMessage c])"
  by (auto simp: HRConversationalAgent_def initialize_context_def split: prod.splits sum.splits)

section \<open>Drafts: generated once, sent as stored\<close>








lemma sample_intents:
  "chat_intent sample_request = GenerateEmail" "chat_intent ''send it'' = SendEmail"
  by code_simp+

lemma sample_fresh:
  "HRConversationalAgent sample_world sample_data ''Backend engineer'' ''jane.doe@example.com''
     ''HR Team'' = (Inr sample_agent, [Log INFO (using_deepseek HRAgent)])"
  by (simp add: HRConversationalAgent_def get_llm_model_def try_gemini_def try_deepseek_def
      sample_world_def sample_agent_def truthy_def GEMINI_API_KEY_def DEEPSEEK_API_KEY_def)


lemma sample_resolved:
  "resolved sample_world (sample_args pw) =
     [Some ''hr@example.com'', Some pw, Some ''smtp.example.com'', Some ''587'']"
  if "pw \<noteq> []"
  using that
  by (simp add: resolved_def sample_args_def sample_world_def py_or_def truthy_def
      EMAIL_SERVER_def EMAIL_PORT_def EMAIL_USERNAME_def EMAIL_PASSWORD_def)

lemma sample_port: "py_int ''587'' = Some 587"
  by code_simp



section \<open>Dispatch: a result in every case\<close>

lemma chat_never_raises_send:
  "chat_intent q = SendEmail \<Longrightarrow> \<exists>rep. fst (chat w a q args) = Inr rep"
  using handle_never_raises [of w a args] by (simp add: chat_send)

lemma handle_send_missing:
  "\<not> list_all truthy (resolved w args) \<Longrightarrow> generated_email a = Some d \<Longrightarrow>
   handle_send_request w a args =
     (Inr (EmailFailed (candidate_email a)), [Log ERROR ''Missing email credentials''])"
  by (simp add: handle_send_request_def send_missing)

lemma session_events_raised:
  "snd (session_events u r outcome) = None \<longleftrightarrow> outcome = Sent"
  by (cases outcome) (simp_all add: session_events_def Let_def)


text \<open>
  Claim C6. When one of the four transport parameters (account, secret, host, port) is
  still empty after the fallback to the configuration, the dispatch returns the failure
  value, logs "Missing email credentials" and does nothing else: no SMTP session is
  opened. When a step of the SMTP session raises (the connection, the login), the
  dispatch returns the failure value and the last log record names the cause; every
  failure value comes with one of these two log records. The dispatch never raises:
  \<^verbatim>\<open>_send_email_to_candidate\<close>, \<^verbatim>\<open>_handle_send_request\<close> and \<open>chat\<close> on a send-email
  request always return a value.
\<close>

theorem dispatch_returns_result:
  "(\<not> list_all truthy (resolved w args)
      \<longrightarrow> send_email_to_candidate w s b r args =
            (Inr False, [Log ERROR ''Missing email credentials''])) \<and>
   (\<not> list_all truthy (resolved w args) \<and> generated_email a = Some d
      \<longrightarrow> handle_send_request w a args =
            (Inr (EmailFailed (candidate_email a)), [Log ERROR ''Missing email credentials''])) \<and>
   (list_all truthy (resolved w args) \<and>
    msg = \<lparr>Subject = s, From = the (resolved w args ! 0), To = r, content = py_strip b\<rparr> \<and>
    EmailMessage w msg = None \<and> py_int (the (resolved w args ! 3)) = Some p \<and>
    session_events (the (resolved w args ! 0)) r
      (smtp_session w (the (resolved w args ! 2)) p (the (resolved w args ! 0))
         (the (resolved w args ! 1)) msg) = (evs, Some e)
      \<longrightarrow> (\<exists>evs'. send_email_to_candidate w s b r args =
             (Inr False,
              evs' @ [Log ERROR (''Failed to send email to candidate: '' @ str_exception e)]))) \<and>
   (send_email_to_candidate w s b r args = (Inr False, evs)
      \<longrightarrow> evs = [Log ERROR ''Missing email credentials''] \<or>
          (\<exists>evs' e. evs = evs' @
             [Log ERROR (''Failed to send email to candidate: '' @ str_exception e)])) \<and>
   (\<exists>ok. fst (send_email_to_candidate w s b r args) = Inr ok) \<and>
   (\<exists>rep. fst (handle_send_request w a args) = Inr rep) \<and>
   (chat_intent q = SendEmail \<longrightarrow> (\<exists>rep. fst (chat w a q args) = Inr rep))"
proof (intro conjI impI)
  assume "\<not> list_all truthy (resolved w args)"
  then show "send_email_to_candidate w s b r args =
      (Inr False, [Log ERROR ''Missing email credentials''])"
    by (rule send_missing)
next
  assume "\<not> list_all truthy (resolved w args) \<and> generated_email a = Some d"
  then show "handle_send_request w a args =
      (Inr (EmailFailed (candidate_email a)), [Log ERROR ''Missing email credentials''])"
    by (simp add: handle_send_missing)
next
  assume h: "list_all truthy (resolved w args) \<and>
    msg = \<lparr>Subject = s, From = the (resolved w args ! 0), To = r, content = py_strip b\<rparr> \<and>
    EmailMessage w msg = None \<and> py_int (the (resolved w args ! 3)) = Some p \<and>
    session_events (the (resolved w args ! 0)) r
      (smtp_session w (the (resolved w args ! 2)) p (the (resolved w args ! 0))
         (the (resolved w args ! 1)) msg) = (evs, Some e)"
  show "\<exists>evs'. send_email_to_candidate w s b r args =
      (Inr False, evs' @ [Log ERROR (''Failed to send email to candidate: '' @ str_exception e)])"
    by (rule send_transport_failure [of w args msg s r b p evs e]) (use h in blast)+
next
  assume "send_email_to_candidate w s b r args = (Inr False, evs)"
  then show "evs = [Log ERROR ''Missing email credentials''] \<or>
      (\<exists>evs' e. evs = evs' @
         [Log ERROR (''Failed to send email to candidate: '' @ str_exception e)])"
    by (rule send_failure_logged)
next
  show "\<exists>ok. fst (send_email_to_candidate w s b r args) = Inr ok"
    by (rule send_never_raises)
next
  show "\<exists>rep. fst (handle_send_request w a args) = Inr rep"
    by (rule handle_never_raises)
next
  assume "chat_intent q = SendEmail"
  then show "\<exists>rep. fst (chat w a q args) = Inr rep"
    by (rule chat_never_raises_send)
qed

theorem dispatch_returns_result_witness:
  "send_email_to_candidate sample_world ''Interview'' ''Dear Jane'' ''jane.doe@example.com'' no_args =
     (Inr False, [Log ERROR ''Missing email credentials'']) \<and>
   handle_send_request sample_world sample_drafted no_args =
     (Inr (EmailFailed ''jane.doe@example.com''), [Log ERROR ''Missing email credentials'']) \<and>
   (\<exists>evs'. send_email_to_candidate sample_world ''Interview'' ''Dear Jane''
              ''jane.doe@example.com'' (sample_args ''wrong'') =
            (Inr False,
             evs' @ [Log ERROR (''Failed to send email to candidate: '' @
                                ''Username and Password not accepted'')])) \<and>
   (\<exists>rep. fst (chat sample_world sample_drafted ''send it'' (sample_args ''wrong'')) = Inr rep)"
proof -
  have missing: "\<not> list_all truthy (resolved sample_world no_args)"
    by (simp add: resolved_def no_args_def sample_world_def py_or_def truthy_def
        EMAIL_USERNAME_def)
  have d: "generated_email sample_drafted = Some sample_draft"
    by (simp add: sample_drafted_def)
  have email: "candidate_email sample_drafted = ''jane.doe@example.com''"
    by (simp add: sample_drafted_def sample_agent_def initialize_context_def)
  have r: "resolved sample_world (sample_args ''wrong'') =
      [Some ''hr@example.com'', Some ''wrong'', Some ''smtp.example.com'', Some ''587'']"
    by (simp add: sample_resolved)
  have creds: "list_all truthy (resolved sample_world (sample_args ''wrong''))"
    by (simp add: r truthy_def)
  have strip: "py_strip ''Dear Jane'' = ''Dear Jane''"
    by code_simp
  define msg where "msg = \<lparr>Subject = ''Interview'', From = ''hr@example.com'',
      To = ''jane.doe@example.com'', content = ''Dear Jane''\<rparr>"
  have m: "msg = \<lparr>Subject = ''Interview'',
      From = the (resolved sample_world (sample_args ''wrong'') ! 0),
      To = ''jane.doe@example.com'', content = py_strip ''Dear Jane''\<rparr>"
    by (simp add: msg_def r strip)
  have built: "EmailMessage sample_world msg = None"
    by (simp add: sample_world_def)
  have port: "py_int (the (resolved sample_world (sample_args ''wrong'') ! 3)) = Some 587"
    by (simp add: r sample_port)
  have session: "session_events (the (resolved sample_world (sample_args ''wrong'') ! 0))
      ''jane.doe@example.com''
      (smtp_session sample_world (the (resolved sample_world (sample_args ''wrong'') ! 2)) 587
         (the (resolved sample_world (sample_args ''wrong'') ! 0))
         (the (resolved sample_world (sample_args ''wrong'') ! 1)) msg) =
      ([Log DEBUG ''Starting TLS...'', Log DEBUG (''Logging in as '' @ ''hr@example.com'')],
       Some (Exception ''Username and Password not accepted''))"
    unfolding r by (simp add: sample_world_def session_events_def)
  note inst1 = dispatch_returns_result [where w = sample_world and args = no_args
      and s = "''Interview''" and b = "''Dear Jane''" and r = "''jane.doe@example.com''"
      and a = sample_drafted and d = sample_draft]
  note inst2 = dispatch_returns_result [where w = sample_world and args = "sample_args ''wrong''"
      and s = "''Interview''" and b = "''Dear Jane''" and r = "''jane.doe@example.com''"
      and a = sample_drafted and msg = msg and p = 587
      and evs = "[Log DEBUG ''Starting TLS...'', Log DEBUG (''Logging in as '' @ ''hr@example.com'')]"
      and e = "Exception ''Username and Password not accepted''" and q = "''send it''"]
  from inst1 [THEN conjunct1] missing
  have c1: "send_email_to_candidate sample_world ''Interview'' ''Dear Jane''
      ''jane.doe@example.com'' no_args = (Inr False, [Log ERROR ''Missing email credentials''])"
    by simp
  from inst1 [THEN conjunct2, THEN conjunct1] missing d email
  have c2: "handle_send_request sample_world sample_drafted no_args =
     (Inr (EmailFailed ''jane.doe@example.com''), [Log ERROR ''Missing email credentials''])"
    by simp
  from inst2 [THEN conjunct2, THEN conjunct2, THEN conjunct1] creds m built port session
  have c3: "\<exists>evs'. send_email_to_candidate sample_world ''Interview'' ''Dear Jane''
              ''jane.doe@example.com'' (sample_args ''wrong'') =
            (Inr False,
             evs' @ [Log ERROR (''Failed to send email to candidate: '' @
                                ''Username and Password not accepted'')])"
    by simp
  from inst2 [THEN conjunct2, THEN conjunct2, THEN conjunct2, THEN conjunct2, THEN conjunct2,
      THEN conjunct2] sample_intents(2)
  have c4: "\<exists>rep. fst (chat sample_world sample_drafted ''send it'' (sample_args ''wrong'')) = Inr rep"
    by simp
  show ?thesis by (intro conjI) (rule c1 c2 c3 c4)+
qed

section \<open>The history of messages\<close>

lemma chat_history_unchanged:
  assumes "chat_intent q \<noteq> Query" and "chat w a q args = (r, a', evs)"
  shows "message_history a' = message_history a"
proof (cases "chat_intent q")
  case Query
  with assms show ?thesis by simp
next
  case GenerateEmail
  with assms show ?thesis by (auto simp: chat_generate dest: generate_email_history)
next
  case SendEmail
  with assms show ?thesis by (auto simp: chat_send)
qed

lemma chat_query_answer:
  assumes "chat_intent q = Query" and "system_msgs (message_history a) = [c]"
    and "chat w a q args = (Inr r, a', evs)"
  shows "\<exists>t. r = Answer t \<and> message_history a' = message_history a @ [HumanMessage q, AIMessage t]"
  using assms
  by (auto simp: chat_query plain_query_ok Let_def split: sum.splits)

lemma chat_query_raise:
  assumes "chat_intent q = Query" and "system_msgs (message_history a) = [c]"
    and "chat w a q args = (Inl e, a', evs)"
  shows "a' = a"
  using assms
  by (auto simp: chat_query plain_query_ok Let_def split: sum.splits)


lemma sample_question_intent: "chat_intent sample_question = Query"
  by code_simp

lemma sample_system:
  "message_history sample_agent =
     [SystemMessage (system_prompt sample_world
        \<lparr>resume_data = sample_data, job_description_text = ''Backend engineer'',
         candidate_email = ''jane.doe@example.com'', hr_name = ''HR Team'',
         llm = sample_llm, message_history = [], generated_email = None\<rparr>)]"
  by (simp add: sample_agent_def initialize_context_def)

lemma sample_answer:
  "chat sample_world sample_agent sample_question no_args =
     (Inr (Answer ''Five years.''),
      sample_agent\<lparr>message_history :=
        message_history sample_agent @ [HumanMessage sample_question, AIMessage ''Five years.'']\<rparr>,
      [ChainInvoke ((''system'', hd (system_msgs (message_history sample_agent))) #
                    [(''human'', ''{input}'')]) sample_question])"
  by (simp add: chat_def sample_question_intent plain_query_def sample_system system_msgs_def
      conversation_msgs_def Let_def)
     (simp add: sample_agent_def initialize_context_def sample_llm_def)


text \<open>
  Claim C9. A generate-email or send-email request leaves the history of messages as
  it is. A plain query that the model answers adds the human message and then the
  model's message at the end of the history, and nothing else; when the model raises,
  the agent is unchanged. In every conversation of a new agent the history holds one
  system message, the one written at creation, and every invocation of the model for a
  plain query starts with that system message and has no other.
\<close>

theorem history_frame:
  "(chat_intent q \<noteq> Query \<and> chat w a q args = (r, a', evs)
      \<longrightarrow> message_history a' = message_history a) \<and>
   (chat_intent q = Query \<and> system_msgs (message_history a) = [c] \<and>
    chat w a q args = (Inr rep, a', evs)
      \<longrightarrow> (\<exists>t. rep = Answer t \<and>
               message_history a' = message_history a @ [HumanMessage q, AIMessage t])) \<and>
   (chat_intent q = Query \<and> system_msgs (message_history a) = [c] \<and>
    chat w a q args = (Inl e, a', evs)
      \<longrightarrow> a' = a) \<and>
   (HRConversationalAgent w rd jd em hr = (Inr a0, evs0) \<and> chats w a0 calls = (rs, a1, evs1)
      \<longrightarrow> (\<exists>c0. message_history a0 = [SystemMessage c0] \<and>
                system_msgs (message_history a1) = [c0] \<and>
                (\<forall>ms i. ChainInvoke ms i \<in> set evs1 \<longrightarrow>
                   (\<exists>rest. ms = (''system'', c0) # rest \<and>
                           (\<forall>(role, t) \<in> set rest. role \<noteq> ''system'')))))"
proof (intro conjI impI)
  assume "chat_intent q \<noteq> Query \<and> chat w a q args = (r, a', evs)"
  then show "message_history a' = message_history a"
    using chat_history_unchanged by blast
next
  assume "chat_intent q = Query \<and> system_msgs (message_history a) = [c] \<and>
    chat w a q args = (Inr rep, a', evs)"
  then show "\<exists>t. rep = Answer t \<and>
      message_history a' = message_history a @ [HumanMessage q, AIMessage t]"
    using chat_query_answer [of q a c w args rep a' evs] by blast
next
  assume "chat_intent q = Query \<and> system_msgs (message_history a) = [c] \<and>
    chat w a q args = (Inl e, a', evs)"
  then show "a' = a"
    using chat_query_raise [of q a c w args e a' evs] by blast
next
  assume h: "HRConversationalAgent w rd jd em hr = (Inr a0, evs0) \<and>
    chats w a0 calls = (rs, a1, evs1)"
  then obtain c0 where c0: "message_history a0 = [SystemMessage c0]"
    using fresh_agent by blast
  then have s0: "system_msgs (message_history a0) = [c0]"
    by (simp add: system_msgs_def)
  from h have run: "chats w a0 calls = (rs, a1, evs1)" by simp
  from chats_invariant [OF s0 run] c0
  show "\<exists>c0. message_history a0 = [SystemMessage c0] \<and>
      system_msgs (message_history a1) = [c0] \<and>
      (\<forall>ms i. ChainInvoke ms i \<in> set evs1 \<longrightarrow>
         (\<exists>rest. ms = (''system'', c0) # rest \<and>
                 (\<forall>(role, t) \<in> set rest. role \<noteq> ''system'')))"
    by (intro exI [of _ c0]) simp
qed


theorem history_frame_witness:
  "message_history (fst (snd (chat sample_world sample_agent sample_request no_args))) =
     message_history sample_agent \<and>
   message_history (fst (snd (chat sample_world sample_agent ''send it'' no_args))) =
     message_history sample_agent \<and>
   message_history (fst (snd (chat sample_world sample_agent sample_question no_args))) =
     message_history sample_agent @ [HumanMessage sample_question, AIMessage ''Five years.''] \<and>
   length (system_msgs (message_history
     (fst (snd (chats sample_world sample_agent
        [(sample_question, no_args), (sample_request, no_args), (sample_question, no_args)]))))) = 1"
proof -
  let ?calls = "[(sample_question, no_args), (sample_request, no_args), (sample_question, no_args)]"
  have i1: "chat_intent sample_request \<noteq> Query" "chat_intent ''send it'' \<noteq> Query"
    by (simp_all add: sample_intents)
  have p: "x = (fst x, fst (snd x), snd (snd x))" for x :: "'a \<times> 'b \<times> 'c"
    by simp
  have c1: "message_history (fst (snd (chat sample_world sample_agent sample_request no_args))) =
     message_history sample_agent"
    using history_frame [where q = sample_request and w = sample_world and a = sample_agent
        and args = no_args, THEN conjunct1] i1(1)
      p [of "chat sample_world sample_agent sample_request no_args"]
    by blast
  have c2: "message_history (fst (snd (chat sample_world sample_agent ''send it'' no_args))) =
     message_history sample_agent"
    using history_frame [where q = "''send it''" and w = sample_world and a = sample_agent
        and args = no_args, THEN conjunct1] i1(2)
      p [of "chat sample_world sample_agent ''send it'' no_args"]
    by blast
  have s: "system_msgs (message_history sample_agent) =
      [hd (system_msgs (message_history sample_agent))]"
    by (simp add: sample_system system_msgs_def)
  let ?a' = "sample_agent\<lparr>message_history :=
      message_history sample_agent @ [HumanMessage sample_question, AIMessage ''Five years.'']\<rparr>"
  have "chat_intent sample_question = Query \<and>
      system_msgs (message_history sample_agent) =
        [hd (system_msgs (message_history sample_agent))] \<and>
      chat sample_world sample_agent sample_question no_args =
        (Inr (Answer ''Five years.''), ?a',
         [ChainInvoke ((''system'', hd (system_msgs (message_history sample_agent))) #
                       [(''human'', ''{input}'')]) sample_question])"
    by (intro conjI sample_question_intent s sample_answer)
  with history_frame [where q = sample_question and w = sample_world and a = sample_agent
        and args = no_args and c = "hd (system_msgs (message_history sample_agent))"
        and rep = "Answer ''Five years.''" and a' = ?a'
        and evs = "[ChainInvoke ((''system'', hd (system_msgs (message_history sample_agent))) #
                       [(''human'', ''{input}'')]) sample_question]",
        THEN conjunct2, THEN conjunct1]
  have "\<exists>t. Answer ''Five years.'' = Answer t \<and>
      message_history ?a' = message_history sample_agent @ [HumanMessage sample_question, AIMessage t]"
    by (rule mp)
  then have "message_history ?a' =
      message_history sample_agent @ [HumanMessage sample_question, AIMessage ''Five years.'']"
    by blast
  then have c3: "message_history (fst (snd (chat sample_world sample_agent sample_question no_args))) =
     message_history sample_agent @ [HumanMessage sample_question, AIMessage ''Five years.'']"
    by (simp only: sample_answer fst_conv snd_conv)
  obtain rs a1 evs1 where run: "chats sample_world sample_agent ?calls = (rs, a1, evs1)"
    by (rule p [THEN that])
  from history_frame [where w = sample_world and rd = sample_data and jd = "''Backend engineer''"
        and em = "''jane.doe@example.com''" and hr = "''HR Team''" and ?a0.0 = sample_agent
        and ?evs0.0 = "[Log INFO (using_deepseek HRAgent)]"
        and calls = ?calls and rs = rs and ?a1.0 = a1 and ?evs1.0 = evs1,
        THEN conjunct2, THEN conjunct2, THEN conjunct2, THEN mp, OF conjI, OF sample_fresh run]
  obtain c0 where "system_msgs (message_history a1) = [c0]"
    by blast
  then have c4: "length (system_msgs (message_history
     (fst (snd (chats sample_world sample_agent ?calls))))) = 1"
    unfolding run by simp
  show ?thesis by (intro conjI) (rule c1 c2 c3 c4)+
qed

section \<open>Redaction of secrets\<close>

declare py_replace.simps [simp del]




















end
